theory Spec2Isabelle
  imports Complex_Main "HOL-Library.Multiset"
begin

section \<open>Academic paper scraper: the task, the listing parse and the two routes\<close>

text \<open>
  A shallow embedding of \<^verbatim>\<open>src/academic_scraper/app.py\<close>: the Celery task
  \<^verbatim>\<open>scrape_and_summarize\<close> and the Flask routes \<^verbatim>\<open>submit_topic\<close> and
  \<^verbatim>\<open>get_task_status\<close>. The network, the HTML parser and the summarizer library are
  the environment: they are parameters of the model, and the state of the outside world
  is threaded through every call in the order the Python makes the calls.
\<close>

subsection \<open>Python string helpers\<close>

text \<open>\<^verbatim>\<open>str.isspace\<close> on the code points below 256.\<close>

definition is_space :: "char \<Rightarrow> bool" where
  "is_space c = ((of_char c :: nat) \<in> set [9, 10, 11, 12, 13, 28, 29, 30, 31, 32, 133, 160])"

text \<open>\<^verbatim>\<open>str.strip()\<close>: leading and trailing whitespace removed.\<close>

definition strip :: "string \<Rightarrow> string" where
  "strip s = rev (dropWhile is_space (rev (dropWhile is_space s)))"

text \<open>\<^verbatim>\<open>topic.replace(' ', '+')\<close>.\<close>

definition replace_char :: "char \<Rightarrow> char \<Rightarrow> string \<Rightarrow> string" where
  "replace_char a b s = map (\<lambda>c. if c = a then b else c) s"

text \<open>\<^verbatim>\<open>sep.join(xs)\<close>.\<close>

fun join :: "string \<Rightarrow> string list \<Rightarrow> string" where
  "join sep [] = []"
| "join sep [x] = x"
| "join sep (x # y # ys) = x @ sep @ join sep (y # ys)"

text \<open>\<^verbatim>\<open>str(n)\<close> for a length, as the f-string of the progress message prints it.\<close>

definition digit_char :: "nat \<Rightarrow> char" where
  "digit_char d = ''0123456789'' ! d"

fun str_nat :: "nat \<Rightarrow> string" where
  "str_nat n = (if n < 10 then [digit_char n] else str_nat (n div 10) @ [digit_char (n mod 10)])"

declare str_nat.simps [simp del]

subsection \<open>Data\<close>

text \<open>
  The dict \<^verbatim>\<open>{"title": ..., "link": ...}\<close> appended to \<^verbatim>\<open>papers\<close>, and the dict
  with the extra key \<^verbatim>\<open>"summary"\<close> appended to \<^verbatim>\<open>summaries\<close>.
\<close>

record paper_ref =
  title :: string
  link :: string

record paper_result = paper_ref +
  summary :: string

text \<open>
  One element of \<^verbatim>\<open>soup.find_all("li", class_="arxiv-result")\<close>, seen through the
  two \<^verbatim>\<open>find\<close> calls of the loop: the text nodes of the title paragraph when there is
  one, and the \<^verbatim>\<open>href\<close> of the abstract anchor when there is one. \<^verbatim>\<open>find\<close>
  returns \<^verbatim>\<open>None\<close> when nothing matches, and a tag is always truthy.
\<close>

record entry =
  title_element :: "string list option"
  link_element :: "string option"

text \<open>
  The exceptions the listing request can end in: the family the outer
  \<^verbatim>\<open>except\<close> clause catches, and everything else, which leaves the task.
\<close>

datatype exn = RequestException string | OtherException string

text \<open>The two dicts the task serialises with \<^verbatim>\<open>json.dumps\<close>.\<close>

record task_result =
  status :: string
  papers :: "paper_result list option"
  error :: "string option"

text \<open>The \<^verbatim>\<open>meta\<close> dict of a \<^verbatim>\<open>self.update_state\<close> call, with its state.\<close>

datatype meta = Message string | ErrorMeta string

type_synonym update = "string \<times> meta"

text \<open>
  The environment. \<^verbatim>\<open>get_listing\<close> is \<^verbatim>\<open>requests.get\<close>,
  \<^verbatim>\<open>raise_for_status\<close> and the \<^verbatim>\<open>BeautifulSoup\<close> parse of the body;
  \<^verbatim>\<open>from_url\<close> is \<^verbatim>\<open>HtmlParser.from_url(link, Tokenizer("english")).document\<close>;
  \<^verbatim>\<open>summarizer\<close> is the configured \<^verbatim>\<open>LuhnSummarizer\<close>, whose sentences are
  already rendered with \<^verbatim>\<open>str\<close>. \<^verbatim>\<open>Inl\<close> carries \<^verbatim>\<open>str(e)\<close> of the exception.
\<close>

record ('w, 'd) env =
  get_listing :: "string \<Rightarrow> 'w \<Rightarrow> (exn + entry list) \<times> 'w"
  from_url :: "string \<Rightarrow> 'w \<Rightarrow> (string + 'd) \<times> 'w"
  summarizer :: "'d \<Rightarrow> nat \<Rightarrow> string + string list"

text \<open>
  What a run of the task leaves behind: the returned dict (or the exception that
  left the task), the state updates in order, and the world.
\<close>

record 'w run =
  outcome :: "string + task_result"
  updates :: "update list"
  world :: 'w

subsection \<open>The listing parse\<close>

text \<open>\<^verbatim>\<open>title_element.get_text(strip=True)\<close>: every text node stripped, the empty ones dropped.\<close>

definition get_text_strip :: "string list \<Rightarrow> string" where
  "get_text_strip nodes = concat (filter (\<lambda>s. s \<noteq> []) (map strip nodes))"

text \<open>The loop over the result entries, with \<^verbatim>\<open>papers\<close> as the accumulator.\<close>

fun collect_papers :: "entry list \<Rightarrow> paper_ref list \<Rightarrow> paper_ref list" where
  "collect_papers [] acc = acc"
| "collect_papers (e # es) acc =
     (case title_element e of
        None \<Rightarrow> collect_papers es acc
      | Some t \<Rightarrow>
          (case link_element e of
             None \<Rightarrow> collect_papers es acc
           | Some l \<Rightarrow> collect_papers es (acc @ [\<lparr>title = get_text_strip t, link = l\<rparr>])))"

subsection \<open>One paper\<close>

text \<open>The body of the inner \<^verbatim>\<open>try\<close>: the sentences of the summary, or the exception.\<close>

definition try_summarize :: "('w, 'd) env \<Rightarrow> paper_ref \<Rightarrow> 'w \<Rightarrow> (string + string list) \<times> 'w" where
  "try_summarize E p w =
     (case from_url E (link p) w of
        (Inl e, w') \<Rightarrow> (Inl e, w')
      | (Inr doc, w') \<Rightarrow> (summarizer E doc 3, w'))"

text \<open>The inner \<^verbatim>\<open>try\<close> with its \<^verbatim>\<open>except Exception\<close>: the dict that is appended.\<close>

definition process_paper :: "('w, 'd) env \<Rightarrow> paper_ref \<Rightarrow> 'w \<Rightarrow> paper_result \<times> 'w" where
  "process_paper E p w =
     (case try_summarize E p w of
        (Inr summary_sentences, w') \<Rightarrow>
          (\<lparr>title = title p, link = link p, summary = join '' '' summary_sentences\<rparr>, w')
      | (Inl e, w') \<Rightarrow>
          (\<lparr>title = title p, link = link p, summary = ''Could not generate summary: '' @ e\<rparr>, w'))"

text \<open>The loop over \<^verbatim>\<open>papers\<close>, with \<^verbatim>\<open>summaries\<close> as the accumulator.\<close>

fun summarize_papers ::
  "('w, 'd) env \<Rightarrow> paper_ref list \<Rightarrow> paper_result list \<Rightarrow> 'w \<Rightarrow> paper_result list \<times> 'w" where
  "summarize_papers E [] summaries w = (summaries, w)"
| "summarize_papers E (p # ps) summaries w =
     (case process_paper E p w of (r, w') \<Rightarrow> summarize_papers E ps (summaries @ [r]) w')"

subsection \<open>The task\<close>

definition search_url :: "string \<Rightarrow> string" where
  "search_url topic =
     ''https://arxiv.org/search/?query='' @ replace_char CHR '' '' CHR ''+'' topic @ ''&searchtype=all''"

definition scrape_and_summarize :: "('w, 'd) env \<Rightarrow> string \<Rightarrow> 'w \<Rightarrow> 'w run" where
  "scrape_and_summarize E topic w =
     (let started = [(''PROGRESS'', Message ''Starting to scrape...'')] in
      case get_listing E (search_url topic) w of
        (Inl (RequestException e), w1) \<Rightarrow>
          \<lparr>outcome = Inr \<lparr>status = ''failure'', papers = None, error = Some e\<rparr>,
           updates = started @ [(''FAILURE'', ErrorMeta e)],
           world = w1\<rparr>
      | (Inl (OtherException e), w1) \<Rightarrow>
          \<lparr>outcome = Inl e, updates = started, world = w1\<rparr>
      | (Inr entries, w1) \<Rightarrow>
          (let refs = collect_papers entries [] in
           if refs = [] then
             \<lparr>outcome = Inr \<lparr>status = ''complete'', papers = Some [], error = None\<rparr>,
              updates = started,
              world = w1\<rparr>
           else
             (case summarize_papers E refs [] w1 of
                (summaries, w2) \<Rightarrow>
                  \<lparr>outcome = Inr \<lparr>status = ''complete'', papers = Some summaries, error = None\<rparr>,
                   updates = started @
                     [(''PROGRESS'', Message (''Found '' @ str_nat (length refs) @
                         '' papers. Starting summarization...'')),
                      (''PROGRESS'', Message ''Summarization complete. Wrapping up...'')],
                   world = w2\<rparr>)))"

subsection \<open>What the statements about the task speak of\<close>

text \<open>The reference a result entry carries: its \<^verbatim>\<open>title\<close> and \<^verbatim>\<open>link\<close> keys.\<close>

definition ref_of :: "paper_result \<Rightarrow> paper_ref" where
  "ref_of r = \<lparr>title = title r, link = link r\<rparr>"

text \<open>An entry for which both \<^verbatim>\<open>find\<close> calls found an element, and the reference it gives.\<close>

definition complete_entry :: "entry \<Rightarrow> bool" where
  "complete_entry e = (title_element e \<noteq> None \<and> link_element e \<noteq> None)"

definition ref_of_entry :: "entry \<Rightarrow> paper_ref" where
  "ref_of_entry e =
     \<lparr>title = (case title_element e of Some t \<Rightarrow> get_text_strip t | None \<Rightarrow> []),
      link = (case link_element e of Some l \<Rightarrow> l | None \<Rightarrow> [])\<rparr>"

text \<open>
  What the inner \<^verbatim>\<open>try\<close> bodies of one run end in, in the order of the loop: the
  world each paper meets is the one the paper before it left.
\<close>

fun item_outcomes :: "('w, 'd) env \<Rightarrow> paper_ref list \<Rightarrow> 'w \<Rightarrow> (string + string list) list" where
  "item_outcomes E [] w = []"
| "item_outcomes E (p # ps) w =
     (case try_summarize E p w of (r, w') \<Rightarrow> r # item_outcomes E ps w')"

text \<open>The dict the loop appends for a paper whose \<^verbatim>\<open>try\<close> body ended in \<^verbatim>\<open>r\<close>.\<close>

definition summary_entry :: "paper_ref \<Rightarrow> string + string list \<Rightarrow> paper_result" where
  "summary_entry p r =
     (case r of
        Inr ss \<Rightarrow> \<lparr>title = title p, link = link p, summary = join '' '' ss\<rparr>
      | Inl e \<Rightarrow> \<lparr>title = title p, link = link p, summary = ''Could not generate summary: '' @ e\<rparr>)"

text \<open>The keys of the returned dict, when the task returned one.\<close>

definition job_status :: "'w run \<Rightarrow> string option" where
  "job_status r = (case outcome r of Inr d \<Rightarrow> Some (status d) | Inl e \<Rightarrow> None)"

definition job_papers :: "'w run \<Rightarrow> paper_result list option" where
  "job_papers r = (case outcome r of Inr d \<Rightarrow> papers d | Inl e \<Rightarrow> None)"

definition job_error :: "'w run \<Rightarrow> string option" where
  "job_error r = (case outcome r of Inr d \<Rightarrow> error d | Inl e \<Rightarrow> None)"

subsection \<open>The routes\<close>

text \<open>
  The body and the status code of a Flask response. \<^verbatim>\<open>ServerError\<close> is the response
  Flask gives when the view raises, here when \<^verbatim>\<open>jsonify\<close> is handed an exception
  object.
\<close>

datatype body =
    ErrorBody string
  | TaskIdBody string
  | ReadyBody "task_result option"
  | PendingBody
  | ServerError

type_synonym response = "body \<times> nat"

text \<open>
  The broker: the messages \<^verbatim>\<open>delay\<close> has sent, each a task id with its argument. The id
  is the one Celery draws for the call; the model takes it as an argument.
\<close>

type_synonym broker = "(string \<times> string) list"

text \<open>\<^verbatim>\<open>request.form.get("topic")\<close> is \<^verbatim>\<open>None\<close> when the form has no such field.\<close>

definition submit_topic :: "string option \<Rightarrow> string \<Rightarrow> broker \<Rightarrow> response \<times> broker" where
  "submit_topic topic new_id q =
     (case topic of
        None \<Rightarrow> ((ErrorBody ''Topic is required'', 400), q)
      | Some t \<Rightarrow>
          if t = [] then ((ErrorBody ''Topic is required'', 400), q)
          else ((TaskIdBody new_id, 202), q @ [(new_id, t)]))"

text \<open>
  The result backend. \<^verbatim>\<open>task.result\<close> is the string the task returned (kept here as
  the dict it serialises, so that \<^verbatim>\<open>json.loads\<close> is the identity), \<^verbatim>\<open>None\<close>, or the
  exception instance of a task that raised. An id the backend has no entry for reads as
  state \<^verbatim>\<open>PENDING\<close> with result \<^verbatim>\<open>None\<close>.
\<close>

datatype stored = JsonText task_result | NoResult | ExceptionObject string

record task_meta =
  state :: string
  result :: stored

type_synonym backend = "string \<rightharpoonup> task_meta"

definition task_state :: "backend \<Rightarrow> string \<Rightarrow> string" where
  "task_state b task_id = (case b task_id of None \<Rightarrow> ''PENDING'' | Some m \<Rightarrow> state m)"

definition task_stored :: "backend \<Rightarrow> string \<Rightarrow> stored" where
  "task_stored b task_id = (case b task_id of None \<Rightarrow> NoResult | Some m \<Rightarrow> result m)"

text \<open>\<^verbatim>\<open>AsyncResult.ready()\<close>: the state is one of Celery's ready states.\<close>

definition ready :: "backend \<Rightarrow> string \<Rightarrow> bool" where
  "ready b task_id = (task_state b task_id \<in> set [''SUCCESS'', ''FAILURE'', ''REVOKED''])"

definition get_task_status :: "backend \<Rightarrow> string \<Rightarrow> response" where
  "get_task_status b task_id =
     (if ready b task_id then
        (case task_stored b task_id of
           JsonText r \<Rightarrow> (ReadyBody (Some r), 200)
         | NoResult \<Rightarrow> (ReadyBody None, 200)
         | ExceptionObject e \<Rightarrow> (ServerError, 500))
      else (PendingBody, 202))"

text \<open>A response that reports a failure to the caller: a 4xx or 5xx status code.\<close>

definition is_error_response :: "response \<Rightarrow> bool" where
  "is_error_response r = (400 \<le> snd r)"

subsection \<open>The summarizer\<close>

text \<open>
  Modelled from the spec: the extractive summarizer \<^verbatim>\<open>summarize(sentences, sentenceCount)\<close>
  of section 4.2. The task calls the Luhn summarizer of a library, whose code is not under
  \<^verbatim>\<open>src/\<close>; the definitions below follow the four steps and the edge case of the spec.
  A sentence is its sequence of normalised words. The two frequency thresholds and the
  cluster distance are tunable in the spec and are parameters here.
\<close>

type_synonym sentence = "string list"

definition frequency :: "sentence list \<Rightarrow> string \<Rightarrow> nat" where
  "frequency S w = count_list (concat S) w"

text \<open>Step 1: a word is significant when its frequency lies strictly between the thresholds.\<close>

definition significant :: "nat \<Rightarrow> nat \<Rightarrow> sentence list \<Rightarrow> string \<Rightarrow> bool" where
  "significant lo hi S w = (lo < frequency S w \<and> frequency S w < hi)"

text \<open>
  Step 2: the maximal windows of a sentence, over its significance marks. A window starts
  and ends at a significant word; a run of \<^verbatim>\<open>d\<close> or more other words between two
  significant words ends it (with the default distance 4, four such words break the cluster).
\<close>

fun windows :: "nat \<Rightarrow> bool list \<Rightarrow> bool list \<Rightarrow> nat \<Rightarrow> bool list list" where
  "windows d [] cur gap = (if cur = [] then [] else [cur])"
| "windows d (m # ms) cur gap =
     (if m then
        (if cur = [] then windows d ms [True] 0
         else if gap < d then windows d ms (cur @ replicate gap False @ [True]) 0
         else cur # windows d ms [True] 0)
      else windows d ms cur (if cur = [] then 0 else Suc gap))"

text \<open>Step 3: the score of a window, and of a sentence.\<close>

definition window_score :: "bool list \<Rightarrow> rat" where
  "window_score win = of_nat ((length (filter id win))\<^sup>2) / of_nat (length win)"

definition sentence_score :: "nat \<Rightarrow> nat \<Rightarrow> nat \<Rightarrow> sentence list \<Rightarrow> sentence \<Rightarrow> rat" where
  "sentence_score lo hi d S s =
     (let marks = map (significant lo hi S) s in
      if length (filter id marks) < 2 then 0
      else fold max (map window_score (windows d marks [] 0)) 0)"

text \<open>
  Step 4: the \<^verbatim>\<open>n\<close> sentences with the highest scores, the earlier one first among
  equal scores (the sort is stable), put back in document order.
\<close>

definition best_sentences :: "(sentence \<Rightarrow> rat) \<Rightarrow> sentence list \<Rightarrow> nat \<Rightarrow> sentence list" where
  "best_sentences rate S n =
     map snd (sort_key fst (take n (sort_key (\<lambda>(i, s). - rate s) (enumerate 0 S))))"

text \<open>The edge case first: no more sentences than asked for, all of them come back unscored.\<close>

definition summarize :: "nat \<Rightarrow> nat \<Rightarrow> nat \<Rightarrow> sentence list \<Rightarrow> nat \<Rightarrow> sentence list" where
  "summarize lo hi d S n =
     (if length S \<le> n then S else best_sentences (sentence_score lo hi d S) S n)"

subsection \<open>An example environment\<close>

text \<open>
  A listing of three entries for the topic \<^verbatim>\<open>graph theory\<close>, the second without an
  abstract link; an empty listing for the topic \<^verbatim>\<open>nothing\<close>; a failed request for
  every other topic. The page of the first paper has five sentences, the page of the
  second cannot be fetched. The world is the list of the URLs requested so far.
\<close>

definition example_entries :: "entry list" where
  "example_entries =
     [\<lparr>title_element = Some [''  Paths in graphs ''], link_element = Some ''https://arxiv.org/abs/1''\<rparr>,
      \<lparr>title_element = Some [''No link''], link_element = None\<rparr>,
      \<lparr>title_element = Some [''Colourings''], link_element = Some ''https://arxiv.org/abs/2''\<rparr>]"

definition example_env :: "(string list, string list) env" where
  "example_env =
     \<lparr>get_listing = (\<lambda>url w.
        (if url = search_url ''graph theory'' then Inr example_entries
         else if url = search_url ''nothing'' then Inr []
         else Inl (RequestException ''404 Client Error''), w @ [url])),
      from_url = (\<lambda>l w.
        (if l = ''https://arxiv.org/abs/1'' then Inr [''A.'', ''B.'', ''C.'', ''D.'', ''E.'']
         else Inl ''connection refused'', w @ [l])),
      summarizer = (\<lambda>doc n. Inr (take n doc))\<rparr>"

text \<open>
  An environment whose listing request ends in a request exception without a message,
  as \<^verbatim>\<open>requests.exceptions.Timeout()\<close> is: \<^verbatim>\<open>str(e)\<close> is the empty string.
\<close>

definition timeout_env :: "(string list, string list) env" where
  "timeout_env =
     \<lparr>get_listing = (\<lambda>url w. (Inl (RequestException []), w @ [url])),
      from_url = (\<lambda>l w. (Inl ''connection refused'', w @ [l])),
      summarizer = (\<lambda>doc n. Inr (take n doc))\<rparr>"

definition example_refs :: "paper_ref list" where
  "example_refs =
     [\<lparr>title = ''Paths in graphs'', link = ''https://arxiv.org/abs/1''\<rparr>,
      \<lparr>title = ''Colourings'', link = ''https://arxiv.org/abs/2''\<rparr>]"

section \<open>Properties\<close>

subsection \<open>The two loops\<close>

lemma collect_papers_eq:
  "collect_papers es acc = acc @ map ref_of_entry (filter complete_entry es)"
  by (induction es arbitrary: acc)
     (auto simp: ref_of_entry_def complete_entry_def split: option.splits)

lemma process_paper_eq:
  "process_paper E p w = (summary_entry p (fst (try_summarize E p w)), snd (try_summarize E p w))"
  by (simp add: process_paper_def summary_entry_def split: prod.splits sum.splits)

lemma summarize_papers_eq:
  "fst (summarize_papers E ps acc w) = acc @ map2 summary_entry ps (item_outcomes E ps w)"
  by (induction ps arbitrary: acc w) (simp_all add: process_paper_eq split: prod.splits)

lemma length_item_outcomes: "length (item_outcomes E ps w) = length ps"
  by (induction ps arbitrary: w) (simp_all split: prod.splits)

lemma length_summarize_papers:
  "length (fst (summarize_papers E ps acc w)) = length acc + length ps"
  by (simp add: summarize_papers_eq length_item_outcomes)

lemma ref_of_summary_entry: "ref_of (summary_entry p r) = p"
  by (cases r) (simp_all add: ref_of_def summary_entry_def)

lemma map_ref_of_entries:
  "length rs = length ps \<Longrightarrow> map ref_of (map2 summary_entry ps rs) = ps"
  by (induction ps rs rule: list_induct2') (simp_all add: ref_of_summary_entry)

lemma nth_summarize_papers:
  assumes "i < length ps"
  shows "fst (summarize_papers E ps [] w) ! i = summary_entry (ps ! i) (item_outcomes E ps w ! i)"
  using assms by (simp add: summarize_papers_eq length_item_outcomes)

subsection \<open>The task after a listing that was fetched\<close>

lemma outcome_listed:
  assumes "get_listing E (search_url topic) w = (Inr entries, w1)"
  shows "outcome (scrape_and_summarize E topic w) =
    Inr \<lparr>status = ''complete'',
         papers = Some (fst (summarize_papers E (collect_papers entries []) [] w1)),
         error = None\<rparr>"
  using assms by (simp add: scrape_and_summarize_def Let_def split: prod.splits)

lemma updates_listed:
  assumes "get_listing E (search_url topic) w = (Inr entries, w1)"
  shows "fst ` set (updates (scrape_and_summarize E topic w)) = {''PROGRESS''}"
  using assms by (simp add: scrape_and_summarize_def Let_def split: prod.splits)

subsection \<open>The ranking path of the summarizer\<close>

lemma filter_key_single:
  "distinct (map f xs) \<Longrightarrow> a \<in> set xs \<Longrightarrow> filter (\<lambda>x. f a = f x) xs = [a]"
proof (induction xs)
  case Nil
  then show ?case by simp
next
  case (Cons x xs)
  show ?case
  proof (cases "a = x")
    case True
    have "filter (\<lambda>y. f x = f y) xs = []"
      using Cons.prems(1) by (auto simp: filter_empty_conv)
    with True show ?thesis by simp
  next
    case False
    with Cons.prems have ain: "a \<in> set xs" by simp
    from Cons.prems(1) have "f x \<notin> f ` set xs" by simp
    with ain have "f a \<noteq> f x" by (metis imageI)
    with ain Cons show ?thesis by simp
  qed
qed

lemma sort_enumerate: "sort_key fst (sort_key g (enumerate k xs)) = enumerate k xs"
proof (rule properties_for_sort_key)
  show "mset (enumerate k xs) = mset (sort_key g (enumerate k xs))" by simp
  show "sorted (map fst (enumerate k xs))" by simp
  fix a assume a: "a \<in> set (enumerate k xs)"
  have d: "distinct (map fst (enumerate k xs))" by simp
  have "mset (sort_key g (enumerate k xs)) = mset (enumerate k xs)"
    by simp
  then have "mset (map fst (sort_key g (enumerate k xs))) = mset (map fst (enumerate k xs))"
    by (metis mset_map)
  then have d': "distinct (map fst (sort_key g (enumerate k xs)))"
    using d by (metis mset_eq_imp_distinct_iff)
  have a': "a \<in> set (sort_key g (enumerate k xs))" using a by simp
  show "filter (\<lambda>x. fst a = fst x) (enumerate k xs) =
      filter (\<lambda>x. fst a = fst x) (sort_key g (enumerate k xs))"
    using filter_key_single [OF d a] filter_key_single [OF d' a'] by simp
qed

lemma best_sentences_all: "length S \<le> n \<Longrightarrow> best_sentences rate S n = S"
  by (simp add: best_sentences_def sort_enumerate)

section \<open>The claims\<close>

text \<open>
  \<^bold>\<open>C1.\<close> Whenever the listing request succeeds, whatever the per-paper steps do, the
  task returns the dict with status \<^verbatim>\<open>complete\<close> and never publishes the state
  \<^verbatim>\<open>FAILURE\<close>; the \<^verbatim>\<open>papers\<close> list has exactly one entry per reference parsed from the
  listing; and every reference whose fetch, parse or summarization raised, with text
  \<^verbatim>\<open>e\<close>, has the summary \<^verbatim>\<open>Could not generate summary: e\<close> at its position.
\<close>

theorem per_item_failures_keep_job_complete:
  assumes "get_listing E (search_url topic) w = (Inr entries, w1)"
  shows "job_status (scrape_and_summarize E topic w) = Some ''complete''
    \<and> ''FAILURE'' \<notin> fst ` set (updates (scrape_and_summarize E topic w))
    \<and> job_papers (scrape_and_summarize E topic w) =
        Some (fst (summarize_papers E (collect_papers entries []) [] w1))
    \<and> length (fst (summarize_papers E (collect_papers entries []) [] w1)) =
        length (collect_papers entries [])
    \<and> (\<forall>i < length (collect_papers entries []). \<forall>e.
          item_outcomes E (collect_papers entries []) w1 ! i = Inl e \<longrightarrow>
          summary (fst (summarize_papers E (collect_papers entries []) [] w1) ! i) =
            ''Could not generate summary: '' @ e)"
proof -
  let ?run = "scrape_and_summarize E topic w"
  let ?refs = "collect_papers entries []"
  have "job_status ?run = Some ''complete''"
    by (simp add: job_status_def outcome_listed [OF assms])
  moreover have "''FAILURE'' \<notin> fst ` set (updates ?run)"
    by (simp add: updates_listed [OF assms])
  moreover have "job_papers ?run = Some (fst (summarize_papers E ?refs [] w1))"
    by (simp add: job_papers_def outcome_listed [OF assms])
  moreover have "length (fst (summarize_papers E ?refs [] w1)) = length ?refs"
    by (simp add: length_summarize_papers)
  moreover have "summary (fst (summarize_papers E ?refs [] w1) ! i) =
      ''Could not generate summary: '' @ e"
    if "i < length ?refs" and "item_outcomes E ?refs w1 ! i = Inl e" for i e
    using that by (simp add: nth_summarize_papers summary_entry_def)
  ultimately show ?thesis by blast
qed

text \<open>
  The example listing: two references, the page of the second cannot be fetched.
\<close>

theorem per_item_failures_keep_job_complete_witness:
  "get_listing example_env (search_url ''graph theory'') [] =
     (Inr example_entries, [search_url ''graph theory''])
   \<and> job_status (scrape_and_summarize example_env ''graph theory'' []) = Some ''complete''
   \<and> length (fst (summarize_papers example_env (collect_papers example_entries []) []
        [search_url ''graph theory''])) = 2
   \<and> item_outcomes example_env (collect_papers example_entries [])
        [search_url ''graph theory''] ! 1 = Inl ''connection refused''
   \<and> summary (fst (summarize_papers example_env (collect_papers example_entries []) []
        [search_url ''graph theory'']) ! 1) = ''Could not generate summary: connection refused''"
proof -
  have h: "get_listing example_env (search_url ''graph theory'') [] =
     (Inr example_entries, [search_url ''graph theory''])"
    by (simp add: example_env_def)
  have n: "length (collect_papers example_entries []) = 2"
    by (simp add: example_entries_def)
  have o: "item_outcomes example_env (collect_papers example_entries [])
        [search_url ''graph theory''] ! 1 = Inl ''connection refused''"
    by (simp add: example_env_def example_entries_def try_summarize_def)
  show ?thesis
    using per_item_failures_keep_job_complete [OF h] h n o by simp
qed

text \<open>
  \<^bold>\<open>C2\<close>, as stated, fails: the task records \<^verbatim>\<open>str(e)\<close> unchecked, so a request
  exception without a message fails the job with the empty string as its error.
\<close>

theorem listing_failure_empty_error_counterexample:
  "get_listing timeout_env (search_url ''graph theory'') [] =
     (Inl (RequestException []), [search_url ''graph theory''])
   \<and> job_status (scrape_and_summarize timeout_env ''graph theory'' []) = Some ''failure''
   \<and> job_error (scrape_and_summarize timeout_env ''graph theory'' []) = Some []"
  by (simp add: timeout_env_def scrape_and_summarize_def job_status_def job_error_def)

text \<open>
  \<^bold>\<open>C2\<close>, amended. Whenever the listing request ends in a request exception (a
  transport failure, or the non-success status that \<^verbatim>\<open>raise_for_status\<close> turns into
  one), the task returns the dict with status \<^verbatim>\<open>failure\<close>, whose \<^verbatim>\<open>error\<close> key is
  present and holds the text of the exception as it is, and which has no \<^verbatim>\<open>papers\<close>
  key; the last state published is \<^verbatim>\<open>FAILURE\<close> with the same text. The recorded
  error is the empty string exactly when the exception has no text.
\<close>

theorem listing_failure_fails_job:
  assumes "get_listing E (search_url topic) w = (Inl (RequestException e), w1)"
  shows "job_status (scrape_and_summarize E topic w) = Some ''failure''
    \<and> job_error (scrape_and_summarize E topic w) = Some e
    \<and> (job_error (scrape_and_summarize E topic w) = Some []) = (e = [])
    \<and> job_papers (scrape_and_summarize E topic w) = None
    \<and> last (updates (scrape_and_summarize E topic w)) = (''FAILURE'', ErrorMeta e)"
  using assms
  by (simp add: scrape_and_summarize_def job_status_def job_error_def job_papers_def)

theorem listing_failure_fails_job_witness:
  "get_listing example_env (search_url ''x y'') [] =
     (Inl (RequestException ''404 Client Error''), [search_url ''x y''])
   \<and> job_status (scrape_and_summarize example_env ''x y'' []) = Some ''failure''
   \<and> job_error (scrape_and_summarize example_env ''x y'' []) = Some ''404 Client Error''
   \<and> job_error (scrape_and_summarize example_env ''x y'' []) \<noteq> Some []
   \<and> job_papers (scrape_and_summarize example_env ''x y'' []) = None
   \<and> last (updates (scrape_and_summarize example_env ''x y'' [])) =
       (''FAILURE'', ErrorMeta ''404 Client Error'')"
proof -
  have h: "get_listing example_env (search_url ''x y'') [] =
     (Inl (RequestException ''404 Client Error''), [search_url ''x y''])"
    by (simp add: example_env_def search_url_def replace_char_def)
  show ?thesis
    using listing_failure_fails_job [OF h] h by simp
qed

text \<open>
  \<^bold>\<open>C3\<close>, as stated, fails: a topic of three spaces is not empty, \<^verbatim>\<open>not topic\<close> is
  false for it, and the route queues a job and answers 202 with its id. Nothing in the
  route trims the topic.
\<close>

theorem submit_topic_whitespace_counterexample:
  "strip ''   '' = []
   \<and> submit_topic (Some ''   '') ''id1'' [] = ((TaskIdBody ''id1'', 202), [(''id1'', ''   '')])
   \<and> \<not> is_error_response (fst (submit_topic (Some ''   '') ''id1'' []))"
  by (simp add: strip_def is_space_def submit_topic_def is_error_response_def)

text \<open>
  \<^bold>\<open>C3\<close>, amended. A missing or empty topic is answered with 400 and
  \<^verbatim>\<open>Topic is required\<close>, and nothing is queued; every other topic, a topic of
  whitespace included, queues one job with that topic and is answered with 202 and the id
  of the job.
\<close>

theorem submit_topic_rejects_only_empty:
  "(topic = None \<or> topic = Some [] \<longrightarrow>
      submit_topic topic new_id q = ((ErrorBody ''Topic is required'', 400), q))
   \<and> (\<forall>t. topic = Some t \<and> t \<noteq> [] \<longrightarrow>
      submit_topic topic new_id q = ((TaskIdBody new_id, 202), q @ [(new_id, t)]))"
  by (auto simp: submit_topic_def)

theorem submit_topic_rejects_only_empty_witness:
  "submit_topic None ''id1'' [] = ((ErrorBody ''Topic is required'', 400), [])
   \<and> submit_topic (Some []) ''id1'' [] = ((ErrorBody ''Topic is required'', 400), [])
   \<and> submit_topic (Some ''graph theory'') ''id1'' [] =
        ((TaskIdBody ''id1'', 202), [(''id1'', ''graph theory'')])"
  using submit_topic_rejects_only_empty [of None "''id1''" "[]"]
    submit_topic_rejects_only_empty [of "Some []" "''id1''" "[]"]
    submit_topic_rejects_only_empty [of "Some ''graph theory''" "''id1''" "[]"]
  by simp

text \<open>
  \<^bold>\<open>C4\<close>, as stated, fails: for an id the backend has never seen the route answers
  202 with status \<^verbatim>\<open>pending\<close>, which is no error.
\<close>

theorem unknown_task_id_counterexample:
  "get_task_status Map.empty ''nonexistent-id'' = (PendingBody, 202)
   \<and> \<not> is_error_response (get_task_status Map.empty ''nonexistent-id'')"
  by (simp add: get_task_status_def ready_def task_state_def is_error_response_def)

text \<open>
  \<^bold>\<open>C4\<close>, amended. A status query for an id the backend has no entry for is answered
  with 202 and status \<^verbatim>\<open>pending\<close>, the answer a job that is still running gets.
\<close>

theorem unknown_task_id_reads_pending:
  assumes "b task_id = None"
  shows "get_task_status b task_id = (PendingBody, 202)"
  using assms by (simp add: get_task_status_def ready_def task_state_def)

theorem unknown_task_id_reads_pending_witness:
  "Map.empty ''nonexistent-id'' = (None :: task_meta option)
   \<and> get_task_status Map.empty ''nonexistent-id'' = (PendingBody, 202)"
proof -
  have h: "Map.empty ''nonexistent-id'' = (None :: task_meta option)" by simp
  show ?thesis using unknown_task_id_reads_pending [OF h] h by simp
qed

text \<open>
  \<^bold>\<open>C5.\<close> Whenever the listing request succeeds, the titles and links of the
  \<^verbatim>\<open>papers\<close> list, read in order, are the references parsed from the listing, in the
  order of the listing. This holds for every environment and every world, so for
  whatever the per-paper steps do and however long they take.
\<close>

theorem papers_keep_listing_order:
  assumes "get_listing E (search_url topic) w = (Inr entries, w1)"
  shows "map_option (map ref_of) (job_papers (scrape_and_summarize E topic w)) =
    Some (collect_papers entries [])"
proof -
  let ?refs = "collect_papers entries []"
  have "map ref_of (fst (summarize_papers E ?refs [] w1)) =
      map ref_of (map2 summary_entry ?refs (item_outcomes E ?refs w1))"
    by (simp only: summarize_papers_eq append_Nil)
  also have "\<dots> = ?refs"
    by (rule map_ref_of_entries) (rule length_item_outcomes)
  finally show ?thesis
    by (simp add: job_papers_def outcome_listed [OF assms])
qed

theorem papers_keep_listing_order_witness:
  "get_listing example_env (search_url ''graph theory'') [] =
     (Inr example_entries, [search_url ''graph theory''])
   \<and> map_option (map ref_of) (job_papers (scrape_and_summarize example_env ''graph theory'' [])) =
       Some example_refs"
proof -
  have h: "get_listing example_env (search_url ''graph theory'') [] =
     (Inr example_entries, [search_url ''graph theory''])"
    by (simp add: example_env_def)
  have c: "collect_papers example_entries [] = example_refs"
    by (simp add: example_entries_def example_refs_def get_text_strip_def strip_def is_space_def)
  show ?thesis
    using papers_keep_listing_order [OF h] h c by simp
qed

text \<open>
  \<^bold>\<open>C6.\<close> When the listing request succeeds and no reference is parsed from it, the
  task returns status \<^verbatim>\<open>complete\<close> with an empty \<^verbatim>\<open>papers\<close> list at once: the only
  state published is the first progress message, and the world is the one the listing
  request left, so no page has been fetched.
\<close>

theorem empty_listing_completes_at_once:
  assumes "get_listing E (search_url topic) w = (Inr entries, w1)"
    and "collect_papers entries [] = []"
  shows "scrape_and_summarize E topic w =
    \<lparr>outcome = Inr \<lparr>status = ''complete'', papers = Some [], error = None\<rparr>,
     updates = [(''PROGRESS'', Message ''Starting to scrape...'')],
     world = w1\<rparr>"
  using assms by (simp add: scrape_and_summarize_def)

theorem empty_listing_completes_at_once_witness:
  "get_listing example_env (search_url ''nothing'') [] = (Inr [], [search_url ''nothing''])
   \<and> collect_papers [] [] = []
   \<and> scrape_and_summarize example_env ''nothing'' [] =
    \<lparr>outcome = Inr \<lparr>status = ''complete'', papers = Some [], error = None\<rparr>,
     updates = [(''PROGRESS'', Message ''Starting to scrape...'')],
     world = [search_url ''nothing'']\<rparr>"
proof -
  have h: "get_listing example_env (search_url ''nothing'') [] = (Inr [], [search_url ''nothing''])"
    by (simp add: example_env_def search_url_def replace_char_def)
  have c: "collect_papers [] [] = ([] :: paper_ref list)" by simp
  show ?thesis
    using empty_listing_completes_at_once [OF h c] h by simp
qed

text \<open>
  \<^bold>\<open>C7.\<close> After a successful listing request the references are exactly the entries
  that have both a title element and an abstract link, in the order of the listing, each
  with the stripped text of its title element and the \<^verbatim>\<open>href\<close> of its link; an entry
  that lacks either contributes nothing, and the job still ends with status
  \<^verbatim>\<open>complete\<close>.
\<close>

theorem listing_skips_incomplete_entries:
  assumes "get_listing E (search_url topic) w = (Inr entries, w1)"
  shows "collect_papers entries [] = map ref_of_entry (filter complete_entry entries)
    \<and> job_status (scrape_and_summarize E topic w) = Some ''complete''"
  by (simp add: collect_papers_eq job_status_def outcome_listed [OF assms])

theorem listing_skips_incomplete_entries_witness:
  "get_listing example_env (search_url ''graph theory'') [] =
     (Inr example_entries, [search_url ''graph theory''])
   \<and> collect_papers example_entries [] = example_refs
   \<and> job_status (scrape_and_summarize example_env ''graph theory'' []) = Some ''complete''"
proof -
  have h: "get_listing example_env (search_url ''graph theory'') [] =
     (Inr example_entries, [search_url ''graph theory''])"
    by (simp add: example_env_def)
  have c: "map ref_of_entry (filter complete_entry example_entries) = example_refs"
    by (simp add: example_entries_def example_refs_def ref_of_entry_def complete_entry_def
          get_text_strip_def strip_def is_space_def)
  show ?thesis
    using listing_skips_incomplete_entries [OF h] h c by simp
qed

text \<open>
  \<^bold>\<open>C8.\<close> When the sentence count asked for is at least the number of sentences, the
  summarizer returns all sentences unchanged and in order, and the ranking path would
  return the same whatever the scores are; the empty document gives the empty summary.
\<close>

theorem summarize_all_when_count_covers:
  assumes "length S \<le> n"
  shows "summarize lo hi d S n = S
    \<and> best_sentences rate S n = S
    \<and> summarize lo hi d [] m = []"
  using assms by (simp add: summarize_def best_sentences_all)

theorem summarize_all_when_count_covers_witness:
  "length [[''graphs'', ''have'', ''paths''], [''paths'', ''are'', ''walks'']] \<le> (3::nat)
   \<and> summarize 1 5 4 [[''graphs'', ''have'', ''paths''], [''paths'', ''are'', ''walks'']] 3 =
        [[''graphs'', ''have'', ''paths''], [''paths'', ''are'', ''walks'']]
   \<and> best_sentences
        (sentence_score 1 5 4 [[''graphs'', ''have'', ''paths''], [''paths'', ''are'', ''walks'']])
        [[''graphs'', ''have'', ''paths''], [''paths'', ''are'', ''walks'']] 3 =
        [[''graphs'', ''have'', ''paths''], [''paths'', ''are'', ''walks'']]
   \<and> summarize 1 5 4 [] 3 = []"
proof -
  have h: "length [[''graphs'', ''have'', ''paths''], [''paths'', ''are'', ''walks'']] \<le> (3::nat)"
    by simp
  show ?thesis
    using summarize_all_when_count_covers [OF h, of 1 5 4
      "sentence_score 1 5 4 [[''graphs'', ''have'', ''paths''], [''paths'', ''are'', ''walks'']]" 3] h
    by simp
qed

text \<open>
  \<^bold>\<open>C10.\<close> The dict appended for a paper has the title and the link of the reference,
  in the success branch and in the failure branch alike; the summary is the joined
  sentences in the one and the failure message in the other. So the titles and the links
  of the results of the loop are those of the references.
\<close>

theorem process_paper_keeps_title_and_link:
  "title (fst (process_paper E p w)) = title p
   \<and> link (fst (process_paper E p w)) = link p
   \<and> summary (fst (process_paper E p w)) =
       (case fst (try_summarize E p w) of
          Inr ss \<Rightarrow> join '' '' ss
        | Inl e \<Rightarrow> ''Could not generate summary: '' @ e)
   \<and> map title (fst (summarize_papers E ps [] w)) = map title ps
   \<and> map link (fst (summarize_papers E ps [] w)) = map link ps"
proof -
  have r: "map ref_of (fst (summarize_papers E ps [] w)) = ps"
    by (simp only: summarize_papers_eq append_Nil map_ref_of_entries length_item_outcomes)
  have "map title (map ref_of (fst (summarize_papers E ps [] w))) =
      map title (fst (summarize_papers E ps [] w))"
    by (simp add: ref_of_def)
  moreover have "map link (map ref_of (fst (summarize_papers E ps [] w))) =
      map link (fst (summarize_papers E ps [] w))"
    by (simp add: ref_of_def)
  ultimately have "map title (fst (summarize_papers E ps [] w)) = map title ps"
    and "map link (fst (summarize_papers E ps [] w)) = map link ps"
    by (simp_all only: r)
  moreover have "title (fst (process_paper E p w)) = title p"
    and "link (fst (process_paper E p w)) = link p"
    and "summary (fst (process_paper E p w)) =
       (case fst (try_summarize E p w) of
          Inr ss \<Rightarrow> join '' '' ss
        | Inl e \<Rightarrow> ''Could not generate summary: '' @ e)"
    by (simp_all add: process_paper_eq summary_entry_def split: sum.splits)
  ultimately show ?thesis by simp
qed

end
